theory Spec2Isabelle
  imports Complex_Main
begin

section \<open>Numbers\<close>

text \<open>
  A JavaScript number is an IEEE 754 double: a finite value, an infinity or NaN. A finite
  double is represented by the real number it stands for; the negative zero is not told
  apart from zero (the code below divides only by 1000 and by \<open>smoothing + 1\<close>, never by
  a zero). Every arithmetic operation returns the double nearest to the exact result, ties
  going to the even mantissa.
\<close>

datatype number = Fin real | PosInf | NegInf | NaN

text \<open>
  The doubles around a magnitude \<open>a\<close> are the multiples of \<open>2 ^ e\<close>, where \<open>e\<close> is the
  exponent of \<open>a\<close> less the 52 bits of the mantissa, and at least -1074 (the subnormal
  doubles) and at most 971. The two searches find \<open>e\<close>, starting from 0.
\<close>

function downExp :: "real \<Rightarrow> int \<Rightarrow> int" where
  "downExp a e = (if - 1074 < e \<and> a < 2 powi (e + 52) then downExp a (e - 1) else e)"
  by pat_completeness auto
termination
  by (relation "measure (\<lambda>(a, e). nat (e + 1074))") auto

declare downExp.simps [simp del]

function upExp :: "real \<Rightarrow> int \<Rightarrow> int" where
  "upExp a e = (if e < 971 \<and> 2 powi (e + 53) \<le> a then upExp a (e + 1) else e)"
  by pat_completeness auto
termination
  by (relation "measure (\<lambda>(a, e). nat (971 - e))") auto

declare upExp.simps [simp del]

definition ulpExponent :: "real \<Rightarrow> int" where
  "ulpExponent a = (if 2 powi 53 \<le> a then upExp a 0 else downExp a 0)"

definition roundHalfEven :: "real \<Rightarrow> int" where
  "roundHalfEven y =
     (let f = \<lfloor>y\<rfloor> in
      if y - of_int f < 1 / 2 then f
      else if 1 / 2 < y - of_int f then f + 1
      else if even f then f else f + 1)"

definition rnd64 :: "real \<Rightarrow> real" where
  "rnd64 x = (let e = ulpExponent \<bar>x\<bar> in of_int (roundHalfEven (x / 2 powi e)) * 2 powi e)"

text \<open>The double for an exact result: a result that rounds to \<open>2 ^ 1024\<close> overflows.\<close>

definition toNumber :: "real \<Rightarrow> number" where
  "toNumber x =
     (let r = rnd64 x in
      if 2 powi 1024 \<le> r then PosInf else if r \<le> - (2 powi 1024) then NegInf else Fin r)"

fun fneg :: "number \<Rightarrow> number" where
  "fneg (Fin a) = Fin (- a)"
| "fneg PosInf = NegInf"
| "fneg NegInf = PosInf"
| "fneg NaN = NaN"

fun fadd :: "number \<Rightarrow> number \<Rightarrow> number" where
  "fadd (Fin a) (Fin b) = toNumber (a + b)"
| "fadd NaN y = NaN"
| "fadd x NaN = NaN"
| "fadd PosInf NegInf = NaN"
| "fadd NegInf PosInf = NaN"
| "fadd PosInf y = PosInf"
| "fadd x PosInf = PosInf"
| "fadd NegInf y = NegInf"
| "fadd x NegInf = NegInf"

definition fsub :: "number \<Rightarrow> number \<Rightarrow> number" where
  "fsub x y = fadd x (fneg y)"

text \<open>The sign of an infinity times, or over, a finite number \<open>b\<close>.\<close>

definition signedInf :: "bool \<Rightarrow> real \<Rightarrow> number" where
  "signedInf positive b = (if positive = (0 \<le> b) then PosInf else NegInf)"

fun fmul :: "number \<Rightarrow> number \<Rightarrow> number" where
  "fmul (Fin a) (Fin b) = toNumber (a * b)"
| "fmul NaN y = NaN"
| "fmul x NaN = NaN"
| "fmul PosInf (Fin b) = (if b = 0 then NaN else signedInf True b)"
| "fmul NegInf (Fin b) = (if b = 0 then NaN else signedInf False b)"
| "fmul (Fin a) PosInf = (if a = 0 then NaN else signedInf True a)"
| "fmul (Fin a) NegInf = (if a = 0 then NaN else signedInf False a)"
| "fmul PosInf PosInf = PosInf"
| "fmul NegInf NegInf = PosInf"
| "fmul PosInf NegInf = NegInf"
| "fmul NegInf PosInf = NegInf"

fun fdiv :: "number \<Rightarrow> number \<Rightarrow> number" where
  "fdiv (Fin a) (Fin b) =
     (if b = 0 then (if a = 0 then NaN else signedInf True a) else toNumber (a / b))"
| "fdiv NaN y = NaN"
| "fdiv x NaN = NaN"
| "fdiv PosInf (Fin b) = signedInf True b"
| "fdiv NegInf (Fin b) = signedInf False b"
| "fdiv (Fin a) PosInf = Fin 0"
| "fdiv (Fin a) NegInf = Fin 0"
| "fdiv PosInf PosInf = NaN"
| "fdiv NegInf NegInf = NaN"
| "fdiv PosInf NegInf = NaN"
| "fdiv NegInf PosInf = NaN"

text \<open>The comparisons \<open><\<close> and \<open>>=\<close> of JavaScript: false as soon as one side is NaN.\<close>

fun fless :: "number \<Rightarrow> number \<Rightarrow> bool" where
  "fless (Fin a) (Fin b) = (a < b)"
| "fless NaN y = False"
| "fless x NaN = False"
| "fless x NegInf = False"
| "fless PosInf y = False"
| "fless NegInf y = True"
| "fless x PosInf = True"

definition fge :: "number \<Rightarrow> number \<Rightarrow> bool" where
  "fge x y = (x \<noteq> NaN \<and> y \<noteq> NaN \<and> \<not> fless x y)"

section \<open>Dates\<close>

text \<open>
  A JavaScript \<open>Date\<close> holds a time value: a whole number of milliseconds since the epoch,
  at most 8.64e15 in magnitude, or NaN, which makes it an Invalid Date. \<open>timeClip\<close> is the
  TimeClip of ECMAScript, which every method that sets the time value applies.
\<close>

datatype Date = Invalid | Instant int

definition msPerDay :: int where
  "msPerDay = 86400000"

definition maxTime :: int where
  "maxTime = 8640000000000000"

definition timeClip :: "int \<Rightarrow> Date" where
  "timeClip t = (if \<bar>t\<bar> \<le> maxTime then Instant t else Invalid)"

text \<open>
  The time zone of the host is a parameter: \<open>tzaUTC t\<close> is the offset of local time from
  UTC, in milliseconds, at the instant \<open>t\<close>, and \<open>tzaLocal l\<close> the offset that applies to
  the local time \<open>l\<close> (the two forms of LocalTZA in ECMAScript).
\<close>

record Zone =
  tzaUTC :: "int \<Rightarrow> int"
  tzaLocal :: "int \<Rightarrow> int"

text \<open>
  \<open>addDays\<close> of date-fns: an amount of 0 returns the date as it is; otherwise
  \<open>date.setDate(date.getDate() + amount)\<close>, which moves the local time by whole days,
  keeps the local time of day, and converts back to UTC. \<open>subDays\<close> is \<open>addDays\<close> with
  the amount negated, \<open>isAfter\<close> compares time values, and no comparison with NaN holds.
\<close>

definition addDays :: "Zone \<Rightarrow> Date \<Rightarrow> int \<Rightarrow> Date" where
  "addDays z d amount =
     (case d of
        Invalid \<Rightarrow> Invalid
      | Instant t \<Rightarrow>
          if amount = 0 then Instant t
          else (let localTime = t + tzaUTC z t;
                    moved = localTime + amount * msPerDay
                in timeClip (moved - tzaLocal z moved)))"

definition subDays :: "Zone \<Rightarrow> Date \<Rightarrow> int \<Rightarrow> Date" where
  "subDays z d amount = addDays z d (- amount)"

fun isAfter :: "Date \<Rightarrow> Date \<Rightarrow> bool" where
  "isAfter (Instant t) (Instant u) = (u < t)"
| "isAfter d dateToCompare = False"

fun getTime :: "Date \<Rightarrow> number" where
  "getTime (Instant t) = Fin (real_of_int t)"
| "getTime Invalid = NaN"

text \<open>
  Modelled from the spec: \<open>formatDate\<close> of \<open>data/lib/time\<close>, which is not among the
  sources. The spec makes a DateKey the canonical name of the UTC calendar day of an
  instant ("UTC-floored"); the key is represented here by the number of that day since the
  epoch instead of by its rendering as text. The text made of an Invalid Date names no day.
\<close>

type_synonym DateKey = int

datatype DateStr = Key DateKey | InvalidDate

fun formatDate :: "Date \<Rightarrow> DateStr" where
  "formatDate (Instant t) = Key (t div msPerDay)"
| "formatDate Invalid = InvalidDate"

section \<open>The fee store\<close>

record FeeRecord =
  fee :: number

type_synonym ByDate = "DateStr \<rightharpoonup> FeeRecord"

text \<open>
  The store is a plain JavaScript object, and so is each of its entries. \<open>own\<close> holds the
  properties of the store itself, by protocol id. A plain object also inherits the members
  of \<open>Object.prototype\<close>: for one of their names \<open>data[id]\<close> is that member, a function (for
  \<open>__proto__\<close> it is \<open>Object.prototype\<close> itself) and so truthy, when the store has no
  property of its own by that name. \<open>builtin\<close> holds the date properties that have been
  put on these members. A date property of \<open>Object.prototype\<close> is inherited by every object
  that has none of its own by that date.
\<close>

record FeeStore =
  own :: "string \<rightharpoonup> ByDate"
  builtin :: "string \<rightharpoonup> ByDate"

definition objectPrototypeMembers :: "string list" where
  "objectPrototypeMembers =
     [''constructor'', ''__defineGetter__'', ''__defineSetter__'', ''hasOwnProperty'',
      ''__lookupGetter__'', ''__lookupSetter__'', ''isPrototypeOf'', ''propertyIsEnumerable'',
      ''toString'', ''valueOf'', ''__proto__'', ''toLocaleString'']"

text \<open>\<open>data[id]\<close>: the date properties of the object found, or nothing (\<open>undefined\<close>).\<close>

definition entryOf :: "FeeStore \<Rightarrow> string \<Rightarrow> ByDate option" where
  "entryOf data pid =
     (case own data pid of
        Some byDate \<Rightarrow> Some byDate
      | None \<Rightarrow>
          if pid \<in> set objectPrototypeMembers then
            Some (case builtin data pid of Some byDate \<Rightarrow> byDate | None \<Rightarrow> Map.empty)
          else None)"

text \<open>\<open>entry[dateStr]\<close> for an entry of the store: its own property, or the inherited one.\<close>

definition cellOf :: "FeeStore \<Rightarrow> ByDate \<Rightarrow> DateStr \<Rightarrow> FeeRecord option" where
  "cellOf data byDate dateStr =
     (case byDate dateStr of
        Some r \<Rightarrow> Some r
      | None \<Rightarrow> (case builtin data ''__proto__'' of Some inherited \<Rightarrow> inherited dateStr | None \<Rightarrow> None))"

text \<open>\<open>data[id][dateStr] = r\<close>, for an id for which \<open>data[id]\<close> is an object.\<close>

definition setCell :: "FeeStore \<Rightarrow> string \<Rightarrow> DateStr \<Rightarrow> FeeRecord \<Rightarrow> FeeStore" where
  "setCell data pid dateStr r =
     (case own data pid of
        Some byDate \<Rightarrow> data\<lparr>own := (own data)(pid \<mapsto> byDate(dateStr \<mapsto> r))\<rparr>
      | None \<Rightarrow>
          data\<lparr>builtin := (builtin data)(pid \<mapsto>
            (case builtin data pid of Some byDate \<Rightarrow> byDate | None \<Rightarrow> Map.empty)(dateStr \<mapsto> r))\<rparr>)"

text \<open>\<open>if (!data[id]) data[id] = {}\<close>.\<close>

definition ensureEntry :: "FeeStore \<Rightarrow> string \<Rightarrow> FeeStore" where
  "ensureEntry data pid =
     (if entryOf data pid = None then data\<lparr>own := (own data)(pid \<mapsto> Map.empty)\<rparr> else data)"

datatype error = TypeError | Error string

subsection \<open>getMissing\<close>

text \<open>
  The \<open>for\<close> loop of \<open>getMissing\<close>; \<open>byDate\<close> is \<open>data[id]\<close>, which the loop reads and
  never changes. A stored record is an object and so truthy: \<open>!data[id][dateStr]\<close> holds
  exactly when the lookup finds nothing. The loop need not end (an Invalid Date is never
  after \<open>maxDate\<close>, and \<open>addDays\<close> keeps it invalid): the result \<open>None\<close> stands for a call
  that never returns.
\<close>

partial_function (option) getMissing_loop ::
  "Zone \<Rightarrow> FeeStore \<Rightarrow> ByDate \<Rightarrow> Date \<Rightarrow> Date \<Rightarrow> DateStr list \<Rightarrow> DateStr list option" where
  "getMissing_loop z data byDate d maxDate missing =
     (if \<not> isAfter d maxDate then
        getMissing_loop z data byDate (addDays z d 1) maxDate
          (let dateStr = formatDate d in
           if cellOf data byDate dateStr = None then missing @ [dateStr] else missing)
      else Some missing)"

text \<open>
  \<open>getMissing\<close> returns the list of missing keys, and the store, which it may have changed.
\<close>

definition getMissing ::
  "Zone \<Rightarrow> FeeStore \<Rightarrow> Date \<Rightarrow> Date \<Rightarrow> string \<Rightarrow> (DateStr list \<times> FeeStore) option" where
  "getMissing z data minDate maxDate pid =
     (let data' = ensureEntry data pid;
          byDate = (case entryOf data' pid of Some m \<Rightarrow> m | None \<Rightarrow> Map.empty)
      in case getMissing_loop z data' byDate minDate maxDate [] of
           None \<Rightarrow> None
         | Some missing \<Rightarrow> Some (missing, data'))"

subsection \<open>getDateWithSmoothing\<close>

text \<open>
  \<open>data[id][dateStr].fee\<close>: reading a property of \<open>undefined\<close> throws a TypeError, both
  when \<open>data[id]\<close> is undefined and when the entry has nothing for the date.
\<close>

definition cellFee :: "FeeStore \<Rightarrow> string \<Rightarrow> DateStr \<Rightarrow> error + number" where
  "cellFee data pid dateStr =
     (case entryOf data pid of
        None \<Rightarrow> Inl TypeError
      | Some byDate \<Rightarrow>
          (case cellOf data byDate dateStr of None \<Rightarrow> Inl TypeError | Some r \<Rightarrow> Inr (fee r)))"

text \<open>
  The loop \<open>for (let i = 1; i <= smoothing; i += 1)\<close>, the running sum in \<open>acc\<close>. The
  smoothing factor and the counter are whole numbers, on which \<open>i += 1\<close> is exact.
\<close>

function smoothing_loop ::
  "Zone \<Rightarrow> FeeStore \<Rightarrow> string \<Rightarrow> Date \<Rightarrow> int \<Rightarrow> int \<Rightarrow> number \<Rightarrow> error + number" where
  "smoothing_loop z data pid d smoothing i acc =
     (if i \<le> smoothing then
        (case cellFee data pid (formatDate (subDays z d i)) of
           Inl e \<Rightarrow> Inl e
         | Inr f \<Rightarrow> smoothing_loop z data pid d smoothing (i + 1) (fadd acc f))
      else Inr acc)"
  by pat_completeness auto
termination
  by (relation "measure (\<lambda>(z, data, pid, d, smoothing, i, acc). nat (smoothing + 1 - i))") auto

declare smoothing_loop.simps [simp del]

definition getDateWithSmoothing ::
  "Zone \<Rightarrow> FeeStore \<Rightarrow> string \<Rightarrow> Date \<Rightarrow> int \<Rightarrow> error + number" where
  "getDateWithSmoothing z data pid d smoothing =
     (case cellFee data pid (formatDate d) of
        Inl e \<Rightarrow> Inl e
      | Inr f \<Rightarrow>
          if smoothing > 0 then
            (case smoothing_loop z data pid d smoothing 1 f of
               Inl e \<Rightarrow> Inl e
             | Inr s \<Rightarrow> Inr (fdiv s (toNumber (real_of_int smoothing + 1))))
          else Inr f)"

subsection \<open>formatData\<close>

record SeriesPoint =
  sp_date :: number
  sp_primary :: number
  sp_secondary :: number

text \<open>
  \<open>secondaryId\<close> has the type \<open>string | null\<close> and is tested for truthiness: \<open>null\<close> and
  the empty string both count as no secondary protocol.
\<close>

definition truthy :: "string option \<Rightarrow> string option" where
  "truthy s = (case s of None \<Rightarrow> None | Some x \<Rightarrow> if x = [] then None else Some x)"

text \<open>The body of the loop of \<open>formatData\<close> for one date: the point, or the exception.\<close>

definition formatData_point ::
  "Zone \<Rightarrow> FeeStore \<Rightarrow> Date \<Rightarrow> string \<Rightarrow> string option \<Rightarrow> int \<Rightarrow> error + SeriesPoint" where
  "formatData_point z data d primaryId secondaryId smoothing =
     (case getDateWithSmoothing z data primaryId d smoothing of
        Inl e \<Rightarrow> Inl e
      | Inr primary \<Rightarrow>
          (case (case truthy secondaryId of
                   Some sid \<Rightarrow> getDateWithSmoothing z data sid d smoothing
                 | None \<Rightarrow> Inr (Fin 0)) of
             Inl e \<Rightarrow> Inl e
           | Inr secondary \<Rightarrow>
               Inr \<lparr>sp_date = fdiv (getTime d) (Fin 1000),
                    sp_primary = primary, sp_secondary = secondary\<rparr>))"

partial_function (option) formatData_loop ::
  "Zone \<Rightarrow> FeeStore \<Rightarrow> Date \<Rightarrow> Date \<Rightarrow> string \<Rightarrow> string option \<Rightarrow> int \<Rightarrow> SeriesPoint list \<Rightarrow>
     (error + SeriesPoint list) option" where
  "formatData_loop z data d maxDate primaryId secondaryId smoothing result =
     (if \<not> isAfter d maxDate then
        (case formatData_point z data d primaryId secondaryId smoothing of
           Inl e \<Rightarrow> Some (Inl e)
         | Inr point \<Rightarrow>
             formatData_loop z data (addDays z d 1) maxDate primaryId secondaryId smoothing
               (result @ [point]))
      else Some (Inr result))"

definition formatData ::
  "Zone \<Rightarrow> FeeStore \<Rightarrow> Date \<Rightarrow> Date \<Rightarrow> string \<Rightarrow> string option \<Rightarrow> int \<Rightarrow>
     (error + SeriesPoint list) option" where
  "formatData z data minDate maxDate primaryId secondaryId smoothing =
     formatData_loop z data minDate maxDate primaryId secondaryId smoothing []"

subsection \<open>saveFeeData\<close>

text \<open>
  The response of \<open>/api/v1/feesByDay\<close>: \<open>success\<close>, and in \<open>data\<close> one entry for each
  protocol with its id and its records, each record a date and the rest of its attributes.
\<close>

record ProtocolResponse =
  pr_id :: string
  pr_data :: "(DateStr \<times> FeeRecord) list"

record ApiResponse =
  success :: bool
  response_data :: "ProtocolResponse list"

fun saveRecords :: "(DateStr \<times> FeeRecord) list \<Rightarrow> string \<Rightarrow> FeeStore \<Rightarrow> FeeStore" where
  "saveRecords [] pid storedFees = storedFees"
| "saveRecords ((dateStr, r) # rest) pid storedFees =
     saveRecords rest pid (setCell storedFees pid dateStr r)"

fun saveFeeData :: "ProtocolResponse list \<Rightarrow> FeeStore \<Rightarrow> FeeStore" where
  "saveFeeData [] storedFees = storedFees"
| "saveFeeData (protocol # rest) storedFees =
     saveFeeData rest
       (saveRecords (pr_data protocol) (pr_id protocol) (ensureEntry storedFees (pr_id protocol)))"

section \<open>The hook useFees\<close>

text \<open>
  The hook keeps the store in a ref and the pair \<open>{loading, data}\<close> in React state. Its
  effect runs whenever one of \<open>dateRange\<close>, \<open>primary\<close>, \<open>secondary\<close>, \<open>smoothing\<close>
  changes; the handler of a fetch runs later, when the response arrives, with the
  parameters of the effect that issued the fetch (they are captured by its closure).
  JavaScript runs each of the two to its end before anything else, so the hook is a state
  machine with two kinds of event.
\<close>

record Params =
  p_start :: Date
  p_end :: Date
  p_primary :: string
  p_secondary :: "string option"
  p_smoothing :: int

record Value =
  loading :: bool
  v_data :: "SeriesPoint list"

record Request =
  rq_params :: Params
  rq_missingPrimary :: "DateStr list"
  rq_missingSecondary :: "DateStr list"

text \<open>
  \<open>inflight\<close> holds the fetches that have been issued and have not settled yet, oldest
  first, \<open>fetchCount\<close> counts every call of \<open>fetch\<close>, \<open>console\<close> holds what
  \<open>console.error\<close> has printed, and \<open>uncaught\<close> the exceptions thrown inside a response
  handler (the promise chain has no \<open>catch\<close>, so they go nowhere).
\<close>

record Hook =
  fees :: FeeStore
  hvalue :: Value
  inflight :: "Request list"
  fetchCount :: nat
  console :: "ApiResponse list"
  uncaught :: "error list"

definition useFees_init :: "FeeStore \<Rightarrow> Hook" where
  "useFees_init initial =
     \<lparr>fees = initial, hvalue = \<lparr>loading = False, v_data = []\<rparr>, inflight = [],
      fetchCount = 0, console = [], uncaught = []\<rparr>"

text \<open>
  The body of the effect. An exception of \<open>formatData\<close> in the branch without a fetch is
  thrown out of the effect; \<open>None\<close> is an effect that never returns.
\<close>

definition recompute :: "Zone \<Rightarrow> Hook \<Rightarrow> Params \<Rightarrow> (error + Hook) option" where
  "recompute z st p =
     (let actualStartDate =
            (if p_smoothing p > 0 then subDays z (p_start p) (p_smoothing p) else p_start p)
      in case getMissing z (fees st) actualStartDate (p_end p) (p_primary p) of
           None \<Rightarrow> None
         | Some (missingPrimary, fees1) \<Rightarrow>
             (case (case truthy (p_secondary p) of
                      Some sid \<Rightarrow> getMissing z fees1 actualStartDate (p_end p) sid
                    | None \<Rightarrow> Some ([], fees1)) of
                None \<Rightarrow> None
              | Some (missingSecondary, fees2) \<Rightarrow>
                  if length missingPrimary > 0 \<or> length missingSecondary > 0 then
                    Some (Inr (st\<lparr>fees := fees2,
                                  hvalue := \<lparr>loading = True, v_data = v_data (hvalue st)\<rparr>,
                                  inflight := inflight st @
                                    [\<lparr>rq_params = p, rq_missingPrimary = missingPrimary,
                                      rq_missingSecondary = missingSecondary\<rparr>],
                                  fetchCount := Suc (fetchCount st)\<rparr>))
                  else
                    (case formatData z fees2 (p_start p) (p_end p) (p_primary p)
                            (p_secondary p) (p_smoothing p) of
                       None \<Rightarrow> None
                     | Some (Inl e) \<Rightarrow> Some (Inl e)
                     | Some (Inr series) \<Rightarrow>
                         Some (Inr (st\<lparr>fees := fees2,
                                       hvalue := \<lparr>loading = False, v_data = series\<rparr>\<rparr>)))))"

text \<open>
  The second \<open>then\<close> handler of the fetch of request \<open>rq\<close>, run on the parsed response.
  An exception of \<open>formatData\<close> ends the handler after the store has been written.
\<close>

definition onResponse :: "Zone \<Rightarrow> Hook \<Rightarrow> Request \<Rightarrow> ApiResponse \<Rightarrow> Hook option" where
  "onResponse z st rq response =
     (if \<not> success response then
        Some (st\<lparr>console := console st @ [response],
                 hvalue := \<lparr>loading = False, v_data = v_data (hvalue st)\<rparr>\<rparr>)
      else
        (let p = rq_params rq;
             fees' = saveFeeData (response_data response) (fees st)
         in case formatData z fees' (p_start p) (p_end p) (p_primary p) (p_secondary p)
                   (p_smoothing p) of
              None \<Rightarrow> None
            | Some (Inl e) \<Rightarrow> Some (st\<lparr>fees := fees', uncaught := uncaught st @ [e]\<rparr>)
            | Some (Inr series) \<Rightarrow>
                Some (st\<lparr>fees := fees', hvalue := \<lparr>loading = False, v_data = series\<rparr>\<rparr>)))"

text \<open>
  A fetch settles in one of two ways: its promise is rejected (the transport fails, or the
  body is not JSON), and then neither \<open>then\<close> handler runs; or it delivers a parsed
  response.
\<close>

datatype FetchOutcome = Rejected | Resolved ApiResponse

datatype Event = Trigger Params | Settle nat FetchOutcome

text \<open>\<open>Settle i outcome\<close> settles the \<open>i\<close>-th fetch in flight, in any order.\<close>

definition step :: "Zone \<Rightarrow> Hook \<Rightarrow> Event \<Rightarrow> (error + Hook) option" where
  "step z st ev =
     (case ev of
        Trigger p \<Rightarrow> recompute z st p
      | Settle i outcome \<Rightarrow>
          if i < length (inflight st) then
            (let rq = inflight st ! i;
                 st' = st\<lparr>inflight := take i (inflight st) @ drop (Suc i) (inflight st)\<rparr>
             in case outcome of
                  Rejected \<Rightarrow> Some (Inr st')
                | Resolved response \<Rightarrow> map_option Inr (onResponse z st' rq response))
          else Some (Inr st))"

fun run :: "Zone \<Rightarrow> Hook \<Rightarrow> Event list \<Rightarrow> (error + Hook) option" where
  "run z st [] = Some (Inr st)"
| "run z st (ev # evs) =
     (case step z st ev of
        None \<Rightarrow> None
      | Some (Inl e) \<Rightarrow> Some (Inl e)
      | Some (Inr st') \<Rightarrow> run z st' evs)"

section \<open>The Uniswap adapters\<close>

text \<open>
  The rows a subgraph query returns. Of each row the adapters read one numeric field
  (\<open>feesUSD\<close>, \<open>dailyVolumeUSD\<close> or \<open>dailyVolumeInUSD\<close>) through \<open>parseFloat\<close>; a
  row is represented by the number \<open>parseFloat\<close> makes of that field. \<open>blacklist\<close> is the
  second selection of the V2 query and is empty for the other two.
\<close>

record GraphData =
  uniswapDayDatas :: "number list"
  blacklist :: "number list"

text \<open>
  \<open>query\<close> of \<open>data/lib/graph\<close> is the network: a parameter of the model, which maps
  the name of a subgraph and the timestamp asked for to the rows, or to the error the
  call fails with. An adapter returns its result and the list of the network calls it made.
\<close>

type_synonym Graph = "string \<Rightarrow> int \<Rightarrow> error + GraphData"

type_synonym 'a Net = "(error + 'a) \<times> (string \<times> int) list"

text \<open>
  Modelled from the spec: \<open>dateToTimestamp\<close> of \<open>data/lib/time\<close>, which is not among
  the sources: the day-boundary timestamp of a DateKey, in seconds.
\<close>

definition dateToTimestamp :: "DateKey \<Rightarrow> int" where
  "dateToTimestamp dateStr = dateStr * 86400"

text \<open>
  \<open>rows[rows.length - 1].field\<close>: on an empty array the element is \<open>undefined\<close> and
  reading its field throws a TypeError.
\<close>

definition lastRow :: "number list \<Rightarrow> error + number" where
  "lastRow rows = (if rows = [] then Inl TypeError else Inr (rows ! (length rows - 1)))"

definition uniV3Adapter :: "string \<Rightarrow> Graph \<Rightarrow> DateKey \<Rightarrow> number Net" where
  "uniV3Adapter subgraph graph dateStr =
     (let ts = dateToTimestamp dateStr in
      case graph subgraph ts of
        Inl e \<Rightarrow> (Inl e, [(subgraph, ts)])
      | Inr rdata \<Rightarrow>
          if length (uniswapDayDatas rdata) = 0 then (Inr (Fin 0), [(subgraph, ts)])
          else (lastRow (uniswapDayDatas rdata), [(subgraph, ts)]))"

text \<open>The literal \<open>0.003\<close>: the double nearest to 3/1000.\<close>

definition feeRate :: number where
  "feeRate = toNumber (3 / 1000)"

definition getUniswapV2Data :: "Graph \<Rightarrow> DateKey \<Rightarrow> number Net" where
  "getUniswapV2Data graph dateStr =
     (let ts = dateToTimestamp dateStr in
      case graph ''uniswap/uniswap-v2'' ts of
        Inl e \<Rightarrow> (Inl e, [(''uniswap/uniswap-v2'', ts)])
      | Inr rdata \<Rightarrow>
          (let blacklistVolume = foldl (\<lambda>total day. fadd total day) (Fin 0) (blacklist rdata) in
           case lastRow (uniswapDayDatas rdata) of
             Inl e \<Rightarrow> (Inl e, [(''uniswap/uniswap-v2'', ts)])
           | Inr volume \<Rightarrow>
               (let oneDayVolume = fsub volume blacklistVolume;
                    oneDay = fmul oneDayVolume feeRate
                in (Inr oneDay, [(''uniswap/uniswap-v2'', ts)]))))"

definition getUniswapV1Data :: "Graph \<Rightarrow> DateKey \<Rightarrow> number Net" where
  "getUniswapV1Data graph dateStr =
     (let ts = dateToTimestamp dateStr in
      case graph ''graphprotocol/uniswap'' ts of
        Inl e \<Rightarrow> (Inl e, [(''graphprotocol/uniswap'', ts)])
      | Inr rdata \<Rightarrow>
          (case lastRow (uniswapDayDatas rdata) of
             Inl e \<Rightarrow> (Inl e, [(''graphprotocol/uniswap'', ts)])
           | Inr volume \<Rightarrow> (Inr (fmul volume feeRate), [(''graphprotocol/uniswap'', ts)])))"

subsection \<open>registerUniswap\<close>

record Metadata =
  md_name :: string
  md_category :: string
  md_website :: string
  md_blockchain :: string
  md_source :: string
  md_adapter :: string
  md_tokenTicker :: "string option"
  md_protocolLaunch :: string

type_synonym QueryFn = "Graph \<Rightarrow> string \<Rightarrow> DateKey \<Rightarrow> number Net"

text \<open>
  The local function \<open>query\<close> of \<open>registerUniswap\<close>, which wraps an adapter. The
  \<open>throw\<close> comes before any call of the adapter.
\<close>

definition uniswapQuery :: "(Graph \<Rightarrow> DateKey \<Rightarrow> number Net) \<Rightarrow> QueryFn" where
  "uniswapQuery adapter graph attribute dateStr =
     (if attribute \<noteq> ''fee'' then (Inl (Error (''Uniswap doesn't support '' @ attribute)), [])
      else adapter graph dateStr)"

text \<open>
  \<open>registerUniswap\<close> calls the \<open>register\<close> function it is given four times; the model
  returns the registrations in the order of the calls.
\<close>

definition registerUniswap :: "(string \<times> QueryFn \<times> Metadata) list" where
  "registerUniswap =
     [(''uniswap-v1'', uniswapQuery getUniswapV1Data,
       \<lparr>md_name = ''Uniswap V1'', md_category = ''dex'', md_website = ''https://uniswap.com'',
        md_blockchain = ''Ethereum'', md_source = ''The Graph Protocol'',
        md_adapter = ''uniswap'', md_tokenTicker = None, md_protocolLaunch = ''2020-11-02''\<rparr>),
      (''uniswap-v2'', uniswapQuery getUniswapV2Data,
       \<lparr>md_name = ''Uniswap V2'', md_category = ''dex'', md_website = ''https://uniswap.org'',
        md_blockchain = ''Ethereum'', md_source = ''The Graph Protocol'',
        md_adapter = ''uniswap'', md_tokenTicker = Some ''UNI'',
        md_protocolLaunch = ''2020-05-04''\<rparr>),
      (''uniswap-v3'', uniswapQuery (uniV3Adapter ''ianlapham/uniswap-v3-prod''),
       \<lparr>md_name = ''Uniswap V3'', md_category = ''dex'', md_website = ''https://uniswap.org'',
        md_blockchain = ''Ethereum'', md_source = ''The Graph Protocol'',
        md_adapter = ''uniswap'', md_tokenTicker = Some ''UNI'',
        md_protocolLaunch = ''2021-05-05''\<rparr>),
      (''uniswap-optimism'', uniswapQuery (uniV3Adapter ''ianlapham/uniswap-optimism''),
       \<lparr>md_name = ''Uniswap V3 (Optimism)'', md_category = ''dex'',
        md_website = ''https://uniswap.org'', md_blockchain = ''Optimism'',
        md_source = ''The Graph Protocol'', md_adapter = ''uniswap'',
        md_tokenTicker = Some ''UNI'', md_protocolLaunch = ''2021-07-09''\<rparr>)]"

section \<open>Vocabulary of the properties\<close>

text \<open>
  A zone whose offset from UTC never changes, UTC itself, and a zone with a change of
  clocks: New York in the autumn of 2021, four hours behind UTC until 2021-11-07 06:00 UTC
  (day 18938 of the epoch) and five hours behind from then on. A local time that occurs
  twice is taken with the offset before the change.
\<close>

definition constantZone :: "int \<Rightarrow> Zone" where
  "constantZone c = \<lparr>tzaUTC = (\<lambda>t. c), tzaLocal = (\<lambda>l. c)\<rparr>"

definition utc :: Zone where
  "utc = constantZone 0"

definition hour :: int where
  "hour = 3600000"



text \<open>
  The store holds a record for protocol \<open>pid\<close> on day \<open>k\<close>: \<open>data[pid][key]\<close> finds one.
  \<open>visible\<close> is the same once \<open>data[pid]\<close> has been made an object, and a protocol is
  populated from day \<open>a\<close> to day \<open>b\<close> when the store holds a record for each of these days.
\<close>

definition stored :: "FeeStore \<Rightarrow> string \<Rightarrow> DateKey \<Rightarrow> bool" where
  "stored data pid k =
     (case entryOf data pid of None \<Rightarrow> False | Some byDate \<Rightarrow> cellOf data byDate (Key k) \<noteq> None)"

definition visible :: "FeeStore \<Rightarrow> string \<Rightarrow> DateKey \<Rightarrow> bool" where
  "visible data pid k = stored (ensureEntry data pid) pid k"







text \<open>The series derived from a store for the parameters of a request.\<close>

definition derive :: "Zone \<Rightarrow> FeeStore \<Rightarrow> Params \<Rightarrow> (error + SeriesPoint list) option" where
  "derive z data p =
     formatData z data (p_start p) (p_end p) (p_primary p) (p_secondary p) (p_smoothing p)"

text \<open>The store after the effect has looked at the protocols of its parameters.\<close>

definition touched :: "FeeStore \<Rightarrow> Params \<Rightarrow> FeeStore" where
  "touched data p =
     (case truthy (p_secondary p) of
        Some sid \<Rightarrow> ensureEntry (ensureEntry data (p_primary p)) sid
      | None \<Rightarrow> ensureEntry data (p_primary p))"


text \<open>
  What a run of events leaves behind: the value the hook returns, its store, and what it
  has logged; nothing when the run ended in an exception or never ended.
\<close>

definition exposed :: "(error + Hook) option \<Rightarrow> Value option" where
  "exposed r = (case r of Some (Inr st) \<Rightarrow> Some (hvalue st) | _ \<Rightarrow> None)"

definition finalStore :: "(error + Hook) option \<Rightarrow> FeeStore option" where
  "finalStore r = (case r of Some (Inr st) \<Rightarrow> Some (fees st) | _ \<Rightarrow> None)"

definition logged :: "(error + Hook) option \<Rightarrow> ApiResponse list option" where
  "logged r = (case r of Some (Inr st) \<Rightarrow> Some (console st) | _ \<Rightarrow> None)"

definition fetches :: "(error + Hook) option \<Rightarrow> nat option" where
  "fetches r = (case r of Some (Inr st) \<Rightarrow> Some (fetchCount st) | _ \<Rightarrow> None)"

section \<open>Concrete inputs\<close>

text \<open>
  Stores with nothing on the members of \<open>Object.prototype\<close>: an empty one, one in which
  protocol \<open>P\<close> has a record for each of the days 1 to 10, and one in which \<open>P\<close> has the
  fees 10, 20 and 30 on the days 1, 2 and 3.
\<close>

definition storeOf :: "(string \<rightharpoonup> ByDate) \<Rightarrow> FeeStore" where
  "storeOf entries = \<lparr>own = entries, builtin = Map.empty\<rparr>"

definition emptyStore :: FeeStore where
  "emptyStore = storeOf Map.empty"

definition store10 :: FeeStore where
  "store10 = storeOf [''P'' \<mapsto>
     (\<lambda>d. case d of Key k \<Rightarrow> if 1 \<le> k \<and> k \<le> 10 then Some \<lparr>fee = Fin 1\<rparr> else None
                   | InvalidDate \<Rightarrow> None)]"

definition store3 :: FeeStore where
  "store3 = storeOf [''P'' \<mapsto>
     [Key 1 \<mapsto> \<lparr>fee = Fin 10\<rparr>, Key 2 \<mapsto> \<lparr>fee = Fin 20\<rparr>, Key 3 \<mapsto> \<lparr>fee = Fin 30\<rparr>]]"



text \<open>
  Requests for protocol \<open>P\<close>: the days 2 and 3, each averaged with the day before it;
  and the one day 2021-11-08, averaged with the day before it.
\<close>

definition paramsW :: Params where
  "paramsW = \<lparr>p_start = Instant (2 * msPerDay), p_end = Instant (3 * msPerDay),
              p_primary = ''P'', p_secondary = None, p_smoothing = 1\<rparr>"

definition seriesW :: "SeriesPoint list" where
  "seriesW = [\<lparr>sp_date = Fin 172800, sp_primary = Fin 15, sp_secondary = Fin 0\<rparr>,
              \<lparr>sp_date = Fin 259200, sp_primary = Fin 25, sp_secondary = Fin 0\<rparr>]"



text \<open>
  Two requests for protocol \<open>P\<close>, the first for day 0, the second for the days 5 and 6,
  with the responses of the server to each, their series, and the store once both responses
  have been saved, the second one first; a successful response without any record, and a
  response that reports a failure.
\<close>

definition paramsA :: Params where
  "paramsA = \<lparr>p_start = Instant 0, p_end = Instant 0, p_primary = ''P'',
              p_secondary = None, p_smoothing = 0\<rparr>"

definition paramsB :: Params where
  "paramsB = \<lparr>p_start = Instant (5 * msPerDay), p_end = Instant (6 * msPerDay),
              p_primary = ''P'', p_secondary = None, p_smoothing = 0\<rparr>"

definition responseA :: ApiResponse where
  "responseA = \<lparr>success = True,
                response_data = [\<lparr>pr_id = ''P'', pr_data = [(Key 0, \<lparr>fee = Fin 1\<rparr>)]\<rparr>]\<rparr>"

definition responseB :: ApiResponse where
  "responseB = \<lparr>success = True,
                response_data = [\<lparr>pr_id = ''P'',
                  pr_data = [(Key 5, \<lparr>fee = Fin 5\<rparr>), (Key 6, \<lparr>fee = Fin 6\<rparr>)]\<rparr>]\<rparr>"

definition seriesA :: "SeriesPoint list" where
  "seriesA = [\<lparr>sp_date = Fin 0, sp_primary = Fin 1, sp_secondary = Fin 0\<rparr>]"

definition seriesB :: "SeriesPoint list" where
  "seriesB = [\<lparr>sp_date = Fin 432000, sp_primary = Fin 5, sp_secondary = Fin 0\<rparr>,
              \<lparr>sp_date = Fin 518400, sp_primary = Fin 6, sp_secondary = Fin 0\<rparr>]"

definition storeBA :: FeeStore where
  "storeBA = storeOf [''P'' \<mapsto>
     [Key 5 \<mapsto> \<lparr>fee = Fin 5\<rparr>, Key 6 \<mapsto> \<lparr>fee = Fin 6\<rparr>, Key 0 \<mapsto> \<lparr>fee = Fin 1\<rparr>]]"

definition responseEmpty :: ApiResponse where
  "responseEmpty = \<lparr>success = True, response_data = []\<rparr>"

definition failureResponse :: ApiResponse where
  "failureResponse = \<lparr>success = False, response_data = []\<rparr>"

text \<open>
  Answers of the subgraphs: no row at all; one row with volume 100 and blacklisted pairs
  with volume 200, respectively 40.
\<close>

definition emptyGraph :: Graph where
  "emptyGraph subgraph ts = Inr \<lparr>uniswapDayDatas = [], blacklist = []\<rparr>"

definition blacklistGraph :: Graph where
  "blacklistGraph subgraph ts = Inr \<lparr>uniswapDayDatas = [Fin 100], blacklist = [Fin 200]\<rparr>"

definition oneRowGraph :: Graph where
  "oneRowGraph subgraph ts = Inr \<lparr>uniswapDayDatas = [Fin 100], blacklist = [Fin 40]\<rparr>"


section \<open>Rounding\<close>

lemma downExp_le: "downExp a e \<le> e"
proof (induction a e rule: downExp.induct)
  case (1 a e)
  show ?case
  proof (cases "- 1074 < e \<and> a < 2 powi (e + 52)")
    case True
    then have "downExp a e = downExp a (e - 1)" by (subst downExp.simps) simp
    with "1.IH" [OF True] show ?thesis by simp
  next
    case False
    then have "downExp a e = e" by (subst downExp.simps) auto
    then show ?thesis by simp
  qed
qed

lemma ulpExponent_small: "a < 2 powi 53 \<Longrightarrow> ulpExponent a \<le> 0"
  using downExp_le [of a 0] by (simp add: ulpExponent_def)

lemma roundHalfEven_error: "\<bar>real_of_int (roundHalfEven y) - y\<bar> \<le> 1 / 2"
proof -
  have "real_of_int \<lfloor>y\<rfloor> \<le> y" "y < real_of_int \<lfloor>y\<rfloor> + 1" by linarith+
  then show ?thesis by (auto simp: roundHalfEven_def Let_def)
qed

lemma roundHalfEven_nonneg: "0 \<le> y \<Longrightarrow> 0 \<le> roundHalfEven y"
proof -
  assume "0 \<le> y"
  then have "0 \<le> \<lfloor>y\<rfloor>" by simp
  then show ?thesis by (auto simp: roundHalfEven_def Let_def)
qed

lemma roundHalfEven_nonpos: "y \<le> 0 \<Longrightarrow> roundHalfEven y \<le> 0"
proof -
  assume y: "y \<le> 0"
  show ?thesis
  proof (cases "y = 0")
    case True
    then show ?thesis by (simp add: roundHalfEven_def)
  next
    case False
    then have "y < 0" using y by simp
    then have f: "\<lfloor>y\<rfloor> \<le> - 1" by (simp add: floor_le_iff)
    have "real_of_int \<lfloor>y\<rfloor> \<le> y" by linarith
    then show ?thesis using f y by (auto simp: roundHalfEven_def Let_def)
  qed
qed

lemma powi_pos: "0 < (2::real) powi e"
  by simp

lemma rnd64_nonneg: "0 \<le> x \<Longrightarrow> 0 \<le> rnd64 x"
  by (simp add: rnd64_def Let_def roundHalfEven_nonneg)

lemma rnd64_nonpos: "x \<le> 0 \<Longrightarrow> rnd64 x \<le> 0"
proof -
  assume "x \<le> 0"
  then have "x / 2 powi ulpExponent \<bar>x\<bar> \<le> 0" by (simp add: divide_le_0_iff)
  then have "roundHalfEven (x / 2 powi ulpExponent \<bar>x\<bar>) \<le> 0" by (rule roundHalfEven_nonpos)
  then show ?thesis by (simp add: rnd64_def Let_def mult_le_0_iff)
qed

lemma rnd64_error:
  assumes "\<bar>x\<bar> < 2 powi 53"
  shows "\<bar>rnd64 x - x\<bar> \<le> 1 / 2"
proof -
  define e where "e = ulpExponent \<bar>x\<bar>"
  define u where "u = (2::real) powi e"
  have e: "e \<le> 0" using ulpExponent_small [OF assms] by (simp add: e_def)
  have "(2::real) powi e \<le> 2 powi 0"
    using e by (intro power_int_increasing) simp_all
  then have u: "0 < u" "u \<le> 1"
    by (simp_all add: u_def)
  have "rnd64 x - x = (real_of_int (roundHalfEven (x / u)) - x / u) * u"
    using u by (simp add: rnd64_def Let_def e_def u_def algebra_simps)
  then have "\<bar>rnd64 x - x\<bar> = \<bar>real_of_int (roundHalfEven (x / u)) - x / u\<bar> * u"
    using u by (simp add: abs_mult)
  also have "\<dots> \<le> (1 / 2) * 1"
    using roundHalfEven_error [of "x / u"] u by (intro mult_mono) simp_all
  finally show ?thesis by simp
qed


section \<open>Day arithmetic\<close>

lemma addDays_constantZone:
  "\<bar>t + n * msPerDay\<bar> \<le> maxTime \<Longrightarrow>
   addDays (constantZone c) (Instant t) n = Instant (t + n * msPerDay)"
  by (simp add: addDays_def constantZone_def timeClip_def Let_def)


lemma div_add_days: "(t + n * msPerDay) div msPerDay = t div msPerDay + n"
  by (simp add: msPerDay_def)


lemma span_step: "(maxDate - (t + msPerDay)) div msPerDay = (maxDate - t) div msPerDay - 1"
proof -
  have "maxDate - (t + msPerDay) = (maxDate - t) + (- 1) * msPerDay" by simp
  then show ?thesis by (simp add: msPerDay_def)
qed

lemma span_nonneg: "t \<le> maxDate \<Longrightarrow> 0 \<le> (maxDate - t) div msPerDay"
  by (simp add: msPerDay_def pos_imp_zdiv_nonneg_iff)

lemma span_neg: "maxDate < t \<Longrightarrow> (maxDate - t) div msPerDay < 0"
  by (simp add: msPerDay_def div_neg_pos_less0)



section \<open>The missing set\<close>

text \<open>
  In a zone of constant offset, and with a day to spare before the end of time, the loop
  ends; it appends, to what it was given, the keys that the lookup does not find among the
  consecutive days it walks through, the first being the day of \<open>t\<close>.
\<close>

lemma getMissing_loop_filter:
  assumes "maxDate + msPerDay \<le> maxTime"
  shows "- maxTime \<le> t \<Longrightarrow>
     getMissing_loop (constantZone c) data byDate (Instant t) (Instant maxDate) missing =
       Some (missing @ map Key [k \<leftarrow> [t div msPerDay .. t div msPerDay + (maxDate - t) div msPerDay].
                                 cellOf data byDate (Key k) = None])"
proof (induction "nat (maxDate + 1 - t)" arbitrary: t missing rule: less_induct)
  case less
  show ?case
  proof (cases "maxDate < t")
    case True
    then show ?thesis
      using span_neg [OF True] by (subst getMissing_loop.simps) simp
  next
    case False
    let ?n = "(maxDate - t) div msPerDay"
    let ?k = "t div msPerDay"
    have n: "0 \<le> ?n" using False by (simp add: span_nonneg)
    have valid: "\<bar>t + 1 * msPerDay\<bar> \<le> maxTime"
      using False assms less.prems by (simp add: msPerDay_def maxTime_def)
    have next_date: "addDays (constantZone c) (Instant t) 1 = Instant (t + msPerDay)"
      using addDays_constantZone [OF valid] by simp
    have up: "[?k .. ?k + ?n] = ?k # [?k + 1 .. ?k + ?n]"
      using n by (simp add: upto_rec1)
    have smaller: "nat (maxDate + 1 - (t + msPerDay)) < nat (maxDate + 1 - t)"
      using False by (simp add: msPerDay_def)
    have later: "- maxTime \<le> t + msPerDay"
      using less.prems by (simp add: msPerDay_def)
    have ih: "getMissing_loop (constantZone c) data byDate (Instant (t + msPerDay)) (Instant maxDate) acc =
                Some (acc @ map Key [k \<leftarrow> [?k + 1 .. ?k + ?n]. cellOf data byDate (Key k) = None])"
      for acc
      using less.hyps [OF smaller later, of acc]
      by (simp add: div_add_days [of t 1, simplified] span_step)
    show ?thesis
      apply (subst getMissing_loop.simps)
      apply (subst up)
      using False by (simp add: next_date ih Let_def)
  qed
qed

lemma entryOf_ensureEntry:
  "entryOf (ensureEntry data pid) pid =
     (case entryOf data pid of None \<Rightarrow> Some Map.empty | Some byDate \<Rightarrow> Some byDate)"
  by (auto simp: ensureEntry_def entryOf_def split: option.splits)

lemma builtin_ensureEntry: "builtin (ensureEntry data pid) = builtin data"
  by (simp add: ensureEntry_def)

lemma cellOf_ensureEntry: "cellOf (ensureEntry data pid) byDate k = cellOf data byDate k"
  by (simp add: cellOf_def builtin_ensureEntry cong: option.case_cong)

lemma visible_cell:
  "visible data pid k \<longleftrightarrow>
     cellOf (ensureEntry data pid)
       (case entryOf (ensureEntry data pid) pid of Some m \<Rightarrow> m | None \<Rightarrow> Map.empty) (Key k) \<noteq> None"
  by (simp add: visible_def stored_def entryOf_ensureEntry split: option.splits)

lemma getMissing_constantZone:
  assumes "- maxTime \<le> minDate" and "maxDate + msPerDay \<le> maxTime"
  shows "getMissing (constantZone c) data (Instant minDate) (Instant maxDate) pid =
           Some (map Key [k \<leftarrow> [minDate div msPerDay ..
                               minDate div msPerDay + (maxDate - minDate) div msPerDay].
                            \<not> visible data pid k],
                 ensureEntry data pid)"
  by (simp add: getMissing_def Let_def getMissing_loop_filter [OF assms(2) assms(1)] visible_cell)


lemmas store_eval =
  getMissing_def ensureEntry_def entryOf_def cellOf_def objectPrototypeMembers_def
  storeOf_def emptyStore_def Let_def

lemmas date_eval =
  addDays_def subDays_def timeClip_def constantZone_def utc_def msPerDay_def maxTime_def hour_def





text \<open>
  C10, as the claim states it, fails for an id that names a member of \<open>Object.prototype\<close>:
  the store has no property \<open>constructor\<close> of its own, yet \<open>data['constructor']\<close> is the
  inherited function, which is truthy, and nothing is inserted.
\<close>

theorem getMissing_inherited_id:
  "own emptyStore ''constructor'' = None \<and>
   map_option snd (getMissing utc emptyStore (Instant 0) (Instant 0) ''constructor'') =
     Some emptyStore"
  by (simp add: store_eval date_eval getMissing_loop.simps)

lemma getMissing_snd:
  "getMissing z data minDate maxDate pid = Some r \<Longrightarrow> snd r = ensureEntry data pid"
  by (auto simp: getMissing_def Let_def split: option.splits)

text \<open>
  C10, amended. \<open>getMissing\<close> writes to the store. For an id that is not the name of a
  member of \<open>Object.prototype\<close> and for which the store has no entry, a call that returns
  has added an entry for it, an empty map from dates to records, and left everything else
  as it was; for an id for which the store has an entry, and for an id without an entry that
  names a member of \<open>Object.prototype\<close>, it has left the store as it was. In a host time
  zone of constant offset, and for valid dates with the end at least a day before the last
  instant a Date can hold, the call returns.
\<close>

theorem getMissing_store_effect:
  "(\<forall>r. getMissing z data minDate maxDate pid = Some r \<longrightarrow>
      (own data pid = None \<and> pid \<notin> set objectPrototypeMembers \<longrightarrow>
         snd r = data\<lparr>own := (own data)(pid \<mapsto> Map.empty)\<rparr>) \<and>
      (own data pid \<noteq> None \<or> pid \<in> set objectPrototypeMembers \<longrightarrow> snd r = data)) \<and>
   (- maxTime \<le> lo \<and> hi + msPerDay \<le> maxTime \<longrightarrow>
      getMissing (constantZone c) data (Instant lo) (Instant hi) pid \<noteq> None)"
proof (intro conjI allI impI)
  fix r
  assume r: "getMissing z data minDate maxDate pid = Some r"
  {
    assume "own data pid = None \<and> pid \<notin> set objectPrototypeMembers"
    then show "snd r = data\<lparr>own := (own data)(pid \<mapsto> Map.empty)\<rparr>"
      using getMissing_snd [OF r] by (simp add: ensureEntry_def entryOf_def)
  next
    assume "own data pid \<noteq> None \<or> pid \<in> set objectPrototypeMembers"
    then show "snd r = data"
      using getMissing_snd [OF r] by (auto simp: ensureEntry_def entryOf_def split: option.splits)
  }
next
  assume "- maxTime \<le> lo \<and> hi + msPerDay \<le> maxTime"
  then show "getMissing (constantZone c) data (Instant lo) (Instant hi) pid \<noteq> None"
    by (simp add: getMissing_constantZone)
qed

theorem getMissing_store_effect_witness:
  "getMissing utc emptyStore (Instant 0) (Instant 0) ''P'' =
     Some ([Key 0], storeOf [''P'' \<mapsto> Map.empty]) \<and>
   map_option snd (getMissing utc store10 (Instant 0) (Instant 0) ''P'') = Some store10"
proof -
  have e: "getMissing utc emptyStore (Instant 0) (Instant 0) ''P'' =
             Some ([Key 0], storeOf [''P'' \<mapsto> Map.empty])"
    by (simp add: store_eval date_eval getMissing_loop.simps)
  have t: "getMissing utc store10 (Instant 0) (Instant 0) ''P'' \<noteq> None"
    using getMissing_store_effect [of utc store10 "Instant 0" "Instant 0" "''P''" 0 0 0]
    by (simp add: utc_def maxTime_def msPerDay_def)
  then obtain r where r: "getMissing utc store10 (Instant 0) (Instant 0) ''P'' = Some r"
    by blast
  have "own store10 ''P'' \<noteq> None" by (simp add: store10_def storeOf_def)
  then have "snd r = store10"
    using getMissing_store_effect [of utc store10 "Instant 0" "Instant 0" "''P''" 0 0 0] r
    by simp
  moreover have "snd (the (getMissing utc emptyStore (Instant 0) (Instant 0) ''P'')) =
                   emptyStore\<lparr>own := (own emptyStore)(''P'' \<mapsto> Map.empty)\<rparr>"
    using getMissing_store_effect [of utc emptyStore "Instant 0" "Instant 0" "''P''" 0 0 0] e
    by (simp add: emptyStore_def storeOf_def objectPrototypeMembers_def)
  ultimately show ?thesis using e r by simp
qed


section \<open>Whole numbers as doubles\<close>

lemma roundHalfEven_of_int: "roundHalfEven (real_of_int m) = m"
  by (simp add: roundHalfEven_def)

lemma rnd64_of_int:
  assumes "\<bar>real_of_int n\<bar> < 2 powi 53"
  shows "rnd64 (real_of_int n) = real_of_int n"
proof -
  define e where "e = ulpExponent \<bar>real_of_int n\<bar>"
  have e: "e \<le> 0" using ulpExponent_small [OF assms] by (simp add: e_def)
  have p: "(2::real) powi e = 1 / 2 ^ nat (- e)"
    using e by (simp add: power_int_def power_one_over)
  have "real_of_int n / 2 powi e = real_of_int (n * 2 ^ nat (- e))"
    by (simp add: p)
  then have "roundHalfEven (real_of_int n / 2 powi e) = n * 2 ^ nat (- e)"
    by (simp only: roundHalfEven_of_int)
  then show ?thesis
    by (simp add: rnd64_def Let_def e_def [symmetric] p)
qed

lemma toNumber_small:
  assumes "\<bar>x\<bar> < 2 powi 53"
  shows "toNumber x = Fin (rnd64 x)"
proof -
  have "\<bar>rnd64 x\<bar> \<le> \<bar>x\<bar> + 1 / 2" using rnd64_error [OF assms] by linarith
  then have "\<bar>rnd64 x\<bar> < 2 powi 53 + 1" using assms by linarith
  moreover have "(2::real) powi 53 + 1 < 2 powi 1024" by simp
  ultimately have "\<bar>rnd64 x\<bar> < 2 powi 1024" by linarith
  then show ?thesis by (auto simp: toNumber_def Let_def)
qed

lemma toNumber_of_int:
  "\<bar>real_of_int n\<bar> < 2 powi 53 \<Longrightarrow> toNumber (real_of_int n) = Fin (real_of_int n)"
  by (simp add: toNumber_small rnd64_of_int)

lemma toNumber_numeral [simp]:
  "(numeral w :: real) < 2 powi 53 \<Longrightarrow> toNumber (numeral w) = Fin (numeral w)"
  using toNumber_of_int [of "numeral w"] by simp

lemma toNumber_zero [simp]: "toNumber 0 = Fin 0"
  using toNumber_of_int [of 0] by simp

lemma toNumber_one [simp]: "toNumber 1 = Fin 1"
  using toNumber_of_int [of 1] by simp

section \<open>Smoothing\<close>










lemmas smoothing_eval =
  getDateWithSmoothing_def smoothing_loop.simps cellFee_def entryOf_def cellOf_def
  objectPrototypeMembers_def storeOf_def addDays_def subDays_def timeClip_def Let_def







section \<open>The derived series\<close>











lemmas series_eval =
  formatData_def formatData_loop.simps formatData_point_def truthy_def






section \<open>Recomputing without a fetch\<close>











section \<open>Responses that arrive late or fail\<close>

lemmas hook_eval =
  useFees_init_def recompute_def onResponse_def step_def getMissing_def ensureEntry_def
  setCell_def getMissing_loop.simps series_eval smoothing_eval date_eval derive_def
  exposed_def finalStore_def logged_def fetches_def
  emptyStore_def paramsA_def paramsB_def responseA_def responseB_def seriesA_def seriesB_def
  storeBA_def responseEmpty_def failureResponse_def









text \<open>
  C2. The hook has derived the series of the days 2 and 3 and then asks for the days 5 and
  6, which takes a fetch. When the promise of that fetch is rejected, the series is retained,
  but the state stays loading and nothing is logged: the chain has no \<open>catch\<close>. When the
  fetch delivers a response that reports a failure, the handler logs it, leaves the loading
  state and retains the series, as the claim says of every failed fetch.
\<close>

theorem rejected_fetch_stays_loading:
  "exposed (run utc (useFees_init store3) [Trigger paramsW, Trigger paramsB, Settle 0 Rejected]) =
     Some \<lparr>loading = True, v_data = seriesW\<rparr> \<and>
   logged (run utc (useFees_init store3) [Trigger paramsW, Trigger paramsB, Settle 0 Rejected]) =
     Some [] \<and>
   exposed (run utc (useFees_init store3)
              [Trigger paramsW, Trigger paramsB, Settle 0 (Resolved failureResponse)]) =
     Some \<lparr>loading = False, v_data = seriesW\<rparr> \<and>
   logged (run utc (useFees_init store3)
             [Trigger paramsW, Trigger paramsB, Settle 0 (Resolved failureResponse)]) =
     Some [failureResponse]"
  by (simp add: hook_eval store3_def paramsW_def seriesW_def)


section \<open>The adapters\<close>

text \<open>
  C9. The query capability of each of the four registered Uniswap adapters, called with an
  attribute other than \<open>fee\<close>, fails at once with the error "Uniswap doesn't support"
  followed by the attribute, and makes no network call; called with \<open>fee\<close> it is the day-fee
  function of its protocol.
\<close>

theorem uniswapQuery_attribute:
  "(attribute \<noteq> ''fee'' \<longrightarrow>
      list_all (\<lambda>(pid, q, md). q graph attribute dateStr =
                  (Inl (Error (''Uniswap doesn't support '' @ attribute)), []))
        registerUniswap) \<and>
   map (\<lambda>(pid, q, md). (pid, q graph ''fee'' dateStr)) registerUniswap =
     [(''uniswap-v1'', getUniswapV1Data graph dateStr),
      (''uniswap-v2'', getUniswapV2Data graph dateStr),
      (''uniswap-v3'', uniV3Adapter ''ianlapham/uniswap-v3-prod'' graph dateStr),
      (''uniswap-optimism'', uniV3Adapter ''ianlapham/uniswap-optimism'' graph dateStr)]"
  by (simp add: registerUniswap_def uniswapQuery_def)

theorem uniswapQuery_attribute_witness:
  "list_all (\<lambda>(pid, q, md). q oneRowGraph ''volume'' 0 =
               (Inl (Error ''Uniswap doesn't support volume''), []))
     registerUniswap"
proof -
  have "''volume'' \<noteq> ''fee''" by simp
  then show ?thesis
    using uniswapQuery_attribute [of "''volume''" oneRowGraph 0] by simp
qed

text \<open>
  C3. When the subgraph returns no row for the day, the two V3 adapters return the fee 0,
  as the claim says; the V1 and the V2 adapter read a field of the last element of the empty
  array and fail with a TypeError.
\<close>

theorem zero_rows_results:
  "map (\<lambda>(pid, q, md). (pid, fst (q emptyGraph ''fee'' 0))) registerUniswap =
     [(''uniswap-v1'', Inl TypeError), (''uniswap-v2'', Inl TypeError),
      (''uniswap-v3'', Inr (Fin 0)), (''uniswap-optimism'', Inr (Fin 0))]"
  by (simp add: registerUniswap_def uniswapQuery_def getUniswapV1Data_def getUniswapV2Data_def
        uniV3Adapter_def lastRow_def emptyGraph_def Let_def)

lemma feeRate_value: "feeRate = Fin (3458764513820541 / 2 ^ 60)"
  unfolding feeRate_def by code_simp

lemma toNumber_neg_numeral [simp]:
  "(numeral w :: real) < 2 powi 53 \<Longrightarrow> toNumber (- numeral w) = Fin (- numeral w)"
  using toNumber_of_int [of "- numeral w"] by simp

lemma fee_of_minus_100:
  "toNumber (- 100 * (3458764513820541 / 2 ^ 60)) = Fin (- (5404319552844595 / 2 ^ 54))"
  by code_simp

lemma fee_of_60:
  "toNumber (60 * (3458764513820541 / 2 ^ 60)) = Fin (3242591731706757 / 2 ^ 54)"
  by code_simp

lemma fee_of_100:
  "toNumber (100 * (3458764513820541 / 2 ^ 60)) = Fin (5404319552844595 / 2 ^ 54)"
  by code_simp

text \<open>
  C4, as the claim states it, fails: for a day with total volume 100 on which the
  blacklisted pairs have volume 200, the V2 adapter returns a negative fee, the double
  nearest to -0.3.
\<close>

theorem getUniswapV2Data_negative:
  "fst (getUniswapV2Data blacklistGraph 0) = Inr (Fin (- (5404319552844595 / 2 ^ 54))) \<and>
   \<not> fge (Fin (- (5404319552844595 / 2 ^ 54))) (Fin 0)"
proof -
  have "fmul (Fin (- 100)) feeRate = Fin (- (5404319552844595 / 2 ^ 54))"
    by (simp only: feeRate_value fmul.simps fee_of_minus_100)
  then show ?thesis
    by (simp add: getUniswapV2Data_def lastRow_def blacklistGraph_def Let_def fsub_def fge_def)
qed

lemma toNumber_nonneg: "0 \<le> x \<Longrightarrow> fge (toNumber x) (Fin 0)"
proof -
  assume "0 \<le> x"
  then have "0 \<le> rnd64 x" by (rule rnd64_nonneg)
  then show ?thesis by (auto simp: toNumber_def Let_def fge_def)
qed

lemma fmul_feeRate_nonneg: "fge x (Fin 0) \<Longrightarrow> fge (fmul x feeRate) (Fin 0)"
proof (cases x)
  case (Fin a)
  assume "fge x (Fin 0)"
  then have "0 \<le> a * (3458764513820541 / 2 ^ 60)" using Fin by (simp add: fge_def)
  then show ?thesis using Fin by (simp only: feeRate_value fmul.simps toNumber_nonneg)
next
  case PosInf
  then show ?thesis by (simp add: feeRate_value signedInf_def fge_def)
next
  case NegInf
  assume "fge x (Fin 0)"
  then show ?thesis using NegInf by (simp add: fge_def)
next
  case NaN
  assume "fge x (Fin 0)"
  then show ?thesis using NaN by (simp add: fge_def)
qed

lemma fsub_nonneg: "fge (Fin v) y \<Longrightarrow> fge (fsub (Fin v) y) (Fin 0)"
proof (cases y)
  case (Fin b)
  assume "fge (Fin v) y"
  then have "0 \<le> v + - b" using Fin by (simp add: fge_def)
  then show ?thesis using Fin by (simp only: fsub_def fneg.simps fadd.simps toNumber_nonneg)
next
  case PosInf
  assume "fge (Fin v) y"
  then show ?thesis using PosInf by (simp add: fge_def)
next
  case NegInf
  then show ?thesis by (simp add: fsub_def fge_def)
next
  case NaN
  assume "fge (Fin v) y"
  then show ?thesis using NaN by (simp add: fge_def)
qed

lemma lastRow_last: "rows \<noteq> [] \<Longrightarrow> lastRow rows = Inr (last rows)"
  by (simp add: lastRow_def last_conv_nth)

text \<open>
  C4, amended. For a day on which the subgraph returns at least one row, the last of them
  with a finite value, an adapter returns a fee computed from that row in double
  arithmetic, with no clamping: the V3 adapters the fees of the row, the V1 adapter its
  volume times 0.003, the V2 adapter its volume less the volume of the blacklisted pairs
  (their sum as the code adds it up), times 0.003. The fee of V1 is not negative when the
  volume is not, and the fee of V2 is not negative when the sum of the blacklisted volumes
  does not exceed the volume of the day.
\<close>

theorem adapter_fee_sign:
  assumes "graph subgraph (dateToTimestamp dateStr) = Inr rdata"
    and "uniswapDayDatas rdata \<noteq> []"
    and "last (uniswapDayDatas rdata) = Fin v"
    and "blacklistVolume = foldl fadd (Fin 0) (blacklist rdata)"
  shows "(subgraph = ''uniswap/uniswap-v2'' \<longrightarrow>
            fst (getUniswapV2Data graph dateStr) =
              Inr (fmul (fsub (Fin v) blacklistVolume) feeRate) \<and>
            (fge (Fin v) blacklistVolume \<longrightarrow>
               fge (fmul (fsub (Fin v) blacklistVolume) feeRate) (Fin 0))) \<and>
         (subgraph = ''graphprotocol/uniswap'' \<longrightarrow>
            fst (getUniswapV1Data graph dateStr) = Inr (fmul (Fin v) feeRate) \<and>
            (0 \<le> v \<longrightarrow> fge (fmul (Fin v) feeRate) (Fin 0))) \<and>
         fst (uniV3Adapter subgraph graph dateStr) = Inr (Fin v)"
proof -
  have v1: "0 \<le> v \<Longrightarrow> fge (fmul (Fin v) feeRate) (Fin 0)"
    by (intro fmul_feeRate_nonneg) (simp add: fge_def)
  have v2: "fge (Fin v) blacklistVolume \<Longrightarrow>
            fge (fmul (fsub (Fin v) blacklistVolume) feeRate) (Fin 0)"
    by (intro fmul_feeRate_nonneg fsub_nonneg)
  show ?thesis
    using assms v1 v2
    by (auto simp: getUniswapV2Data_def getUniswapV1Data_def uniV3Adapter_def lastRow_last
          Let_def)
qed

theorem adapter_fee_sign_witness:
  "fst (getUniswapV2Data oneRowGraph 0) = Inr (Fin (3242591731706757 / 2 ^ 54)) \<and>
   fst (getUniswapV1Data oneRowGraph 0) = Inr (Fin (5404319552844595 / 2 ^ 54)) \<and>
   fst (uniV3Adapter ''ianlapham/uniswap-v3-prod'' oneRowGraph 0) = Inr (Fin 100) \<and>
   fge (Fin (3242591731706757 / 2 ^ 54)) (Fin 0) \<and>
   fge (Fin (5404319552844595 / 2 ^ 54)) (Fin 0)"
proof -
  let ?r = "\<lparr>uniswapDayDatas = [Fin 100], blacklist = [Fin 40]\<rparr>"
  have g: "oneRowGraph sg (dateToTimestamp 0) = Inr ?r" for sg
    by (simp add: oneRowGraph_def)
  have n: "uniswapDayDatas ?r \<noteq> []" "last (uniswapDayDatas ?r) = Fin 100"
    "Fin 40 = foldl fadd (Fin 0) (blacklist ?r)"
    by simp_all
  have s: "fsub (Fin 100) (Fin 40) = Fin 60" by (simp add: fsub_def)
  have e: "fmul (fsub (Fin 100) (Fin 40)) feeRate = Fin (3242591731706757 / 2 ^ 54)"
    "fmul (Fin 100) feeRate = Fin (5404319552844595 / 2 ^ 54)"
    unfolding s by (simp_all only: feeRate_value fmul.simps fee_of_60 fee_of_100)
  have c: "fge (Fin 100) (Fin 40)" "(0::real) \<le> 100" by (simp_all add: fge_def)
  show ?thesis
    using adapter_fee_sign [of oneRowGraph "''uniswap/uniswap-v2''" 0 ?r, OF g n]
          adapter_fee_sign [of oneRowGraph "''graphprotocol/uniswap''" 0 ?r, OF g n]
          adapter_fee_sign [of oneRowGraph "''ianlapham/uniswap-v3-prod''" 0 ?r, OF g n]
          c
    by (simp add: e)
qed

end
